theory Spec2Isabelle
  imports Complex_Main "HOL-Library.Sublist"
begin

section \<open>Values, exceptions and the Python operations the screener uses\<close>

text \<open>
  The screener reads what \<open>response.json()\<close> returns, so every value the rule functions
  see is a JSON value. Python's floats are modelled as exact rationals: rounding, infinities
  and NaN are outside the model. A Python string is a list of characters; the one non-ASCII
  character of the rule details (the arrow of Rule 5) is written as its three UTF-8 bytes.
\<close>

datatype json =
    JNull
  | JBool bool
  | JInt int
  | JFloat rat
  | JStr string
  | JArr "json list"
  | JObj "(string \<times> json) list"

datatype exc =
    ValueError string
  | TypeError string
  | KeyError string
  | AttributeError string
  | IndexError string
  | ZeroDivisionError string

fun str_exc :: "exc \<Rightarrow> string" where
  "str_exc (ValueError m) = m"
| "str_exc (TypeError m) = m"
| "str_exc (KeyError m) = m"
| "str_exc (AttributeError m) = m"
| "str_exc (IndexError m) = m"
| "str_exc (ZeroDivisionError m) = m"

text \<open>Sequencing of computations that may raise: the first exception wins.\<close>

fun bindE :: "exc + 'a \<Rightarrow> ('a \<Rightarrow> exc + 'b) \<Rightarrow> exc + 'b" where
  "bindE (Inl e) f = Inl e"
| "bindE (Inr x) f = f x"

definition quoted :: "string \<Rightarrow> string" where
  "quoted s = [CHR 0x27] @ s @ [CHR 0x27]"

fun type_name :: "json \<Rightarrow> string" where
  "type_name JNull = ''NoneType''"
| "type_name (JBool b) = ''bool''"
| "type_name (JInt i) = ''int''"
| "type_name (JFloat r) = ''float''"
| "type_name (JStr s) = ''str''"
| "type_name (JArr xs) = ''list''"
| "type_name (JObj kvs) = ''dict''"

definition no_attribute :: "json \<Rightarrow> string \<Rightarrow> exc" where
  "no_attribute v a = AttributeError (quoted (type_name v) @ '' object has no attribute '' @ quoted a)"

text \<open>\<open>bool(v)\<close>, as \<open>if v\<close> and \<open>not v\<close> read it.\<close>

fun py_truthy :: "json \<Rightarrow> bool" where
  "py_truthy JNull = False"
| "py_truthy (JBool b) = b"
| "py_truthy (JInt i) = (i \<noteq> 0)"
| "py_truthy (JFloat r) = (r \<noteq> 0)"
| "py_truthy (JStr s) = (s \<noteq> [])"
| "py_truthy (JArr xs) = (xs \<noteq> [])"
| "py_truthy (JObj kvs) = (kvs \<noteq> [])"

fun is_substring :: "string \<Rightarrow> string \<Rightarrow> bool" where
  "is_substring k [] = (k = [])"
| "is_substring k (c # cs) = (take (length k) (c # cs) = k \<or> is_substring k cs)"

text \<open>\<open>key in v\<close> for a string key.\<close>

fun py_contains :: "string \<Rightarrow> json \<Rightarrow> exc + bool" where
  "py_contains k (JObj kvs) = Inr (k \<in> set (map fst kvs))"
| "py_contains k (JArr xs) = Inr (JStr k \<in> set xs)"
| "py_contains k (JStr s) = Inr (is_substring k s)"
| "py_contains k v = Inl (TypeError (''argument of type '' @ quoted (type_name v) @ '' is not iterable''))"

text \<open>\<open>v[key]\<close> for a string key.\<close>

fun py_getitem :: "json \<Rightarrow> string \<Rightarrow> exc + json" where
  "py_getitem (JObj kvs) k = (case map_of kvs k of None \<Rightarrow> Inl (KeyError (quoted k)) | Some x \<Rightarrow> Inr x)"
| "py_getitem (JArr xs) k = Inl (TypeError ''list indices must be integers or slices, not str'')"
| "py_getitem (JStr s) k = Inl (TypeError ''string indices must be integers, not str'')"
| "py_getitem v k = Inl (TypeError (quoted (type_name v) @ '' object is not subscriptable''))"

text \<open>\<open>v[0]\<close>.\<close>

fun py_first :: "json \<Rightarrow> exc + json" where
  "py_first (JArr xs) = (case xs of [] \<Rightarrow> Inl (IndexError ''list index out of range'') | x # _ \<Rightarrow> Inr x)"
| "py_first (JStr s) = (case s of [] \<Rightarrow> Inl (IndexError ''string index out of range'') | c # _ \<Rightarrow> Inr (JStr [c]))"
| "py_first (JObj kvs) = Inl (KeyError ''0'')"
| "py_first v = Inl (TypeError (quoted (type_name v) @ '' object is not subscriptable''))"

text \<open>\<open>v[:n]\<close>. A dict cannot be sliced.\<close>

fun py_slice_to :: "nat \<Rightarrow> json \<Rightarrow> exc + json" where
  "py_slice_to n (JArr xs) = Inr (JArr (take n xs))"
| "py_slice_to n (JStr s) = Inr (JStr (take n s))"
| "py_slice_to n (JObj kvs) = Inl (TypeError (''unhashable type: '' @ quoted ''slice''))"
| "py_slice_to n v = Inl (TypeError (quoted (type_name v) @ '' object is not subscriptable''))"

text \<open>\<open>len(v)\<close>.\<close>

fun py_len :: "json \<Rightarrow> exc + nat" where
  "py_len (JArr xs) = Inr (length xs)"
| "py_len (JStr s) = Inr (length s)"
| "py_len (JObj kvs) = Inr (length kvs)"
| "py_len v = Inl (TypeError (''object of type '' @ quoted (type_name v) @ '' has no len()''))"

text \<open>The elements a \<open>for\<close> loop, \<open>enumerate\<close> or \<open>zip\<close> draws from \<open>v\<close>.\<close>

fun py_iter :: "json \<Rightarrow> exc + json list" where
  "py_iter (JArr xs) = Inr xs"
| "py_iter (JStr s) = Inr (map (\<lambda>c. JStr [c]) s)"
| "py_iter (JObj kvs) = Inr (map (\<lambda>kv. JStr (fst kv)) kvs)"
| "py_iter v = Inl (TypeError (quoted (type_name v) @ '' object is not iterable''))"

text \<open>\<open>v.get(key)\<close> and \<open>v.get(key, default)\<close>: only a dict has the method.\<close>

fun py_get_default :: "json \<Rightarrow> string \<Rightarrow> json \<Rightarrow> exc + json" where
  "py_get_default (JObj kvs) k d = Inr (case map_of kvs k of None \<Rightarrow> d | Some x \<Rightarrow> x)"
| "py_get_default v k d = Inl (no_attribute v ''get'')"

definition py_get :: "json \<Rightarrow> string \<Rightarrow> exc + json" where
  "py_get v k = py_get_default v k JNull"

text \<open>\<open>v.lower()\<close>, on ASCII letters.\<close>

definition lower_char :: "char \<Rightarrow> char" where
  "lower_char c =
     (case map_of (zip ''ABCDEFGHIJKLMNOPQRSTUVWXYZ'' ''abcdefghijklmnopqrstuvwxyz'') c of
        None \<Rightarrow> c | Some l \<Rightarrow> l)"

fun py_lower :: "json \<Rightarrow> exc + string" where
  "py_lower (JStr s) = Inr (map lower_char s)"
| "py_lower v = Inl (no_attribute v ''lower'')"

subsection \<open>Reading and writing numbers\<close>

definition is_digit :: "char \<Rightarrow> bool" where
  "is_digit c = (c \<in> set ''0123456789'')"

definition digit_val :: "char \<Rightarrow> int" where
  "digit_val c = (case map_of (zip ''0123456789'' [0, 1, 2, 3, 4, 5, 6, 7, 8, 9]) c of None \<Rightarrow> 0 | Some d \<Rightarrow> d)"

definition digits_val :: "string \<Rightarrow> int" where
  "digits_val ds = foldl (\<lambda>acc c. 10 * acc + digit_val c) 0 ds"

definition is_space :: "char \<Rightarrow> bool" where
  "is_space c = (c \<in> set [CHR '' '', CHR 0x09, CHR 0x0A, CHR 0x0B, CHR 0x0C, CHR 0x0D])"

definition strip :: "string \<Rightarrow> string" where
  "strip s = rev (dropWhile is_space (rev (dropWhile is_space s)))"

text \<open>
  \<open>float(s)\<close> on a string: surrounding white space, an optional sign, digits with an optional
  fraction, an optional exponent. None stands for the ValueError. (Digit-group underscores
  and the spellings of infinity and NaN are not modelled: their values are not rationals.)
\<close>

definition parse_exponent :: "string \<Rightarrow> int option" where
  "parse_exponent s =
     (case s of
        [] \<Rightarrow> Some 0
      | c # r \<Rightarrow>
          if c = CHR ''e'' \<or> c = CHR ''E'' then
            (let (neg, ds) = (case r of
                                [] \<Rightarrow> (False, [])
                              | d # r' \<Rightarrow> if d = CHR ''-'' then (True, r')
                                         else if d = CHR ''+'' then (False, r') else (False, r))
             in if ds \<noteq> [] \<and> list_all is_digit ds
                then Some (if neg then - digits_val ds else digits_val ds)
                else None)
          else None)"

definition parse_float :: "string \<Rightarrow> rat option" where
  "parse_float s0 =
     (let s = strip s0;
          (neg, s1) = (case s of
                         [] \<Rightarrow> (False, [])
                       | c # r \<Rightarrow> if c = CHR ''-'' then (True, r)
                                  else if c = CHR ''+'' then (False, r) else (False, s));
          ip = takeWhile is_digit s1;
          s2 = dropWhile is_digit s1;
          (fp, s3) = (case s2 of
                        [] \<Rightarrow> ([], [])
                      | c # r \<Rightarrow> if c = CHR ''.'' then (takeWhile is_digit r, dropWhile is_digit r)
                                 else ([], s2))
      in if ip = [] \<and> fp = [] then None
         else case parse_exponent s3 of
                None \<Rightarrow> None
              | Some e \<Rightarrow>
                  (let m = of_int (digits_val (ip @ fp)) / 10 ^ length fp;
                       v = (if e < 0 then m / 10 ^ nat (- e) else m * 10 ^ nat e)
                   in Some (if neg then - v else v)))"

function digits_of :: "int \<Rightarrow> string" where
  "digits_of n =
     (if n < 10 then [''0123456789'' ! nat n]
      else digits_of (n div 10) @ [''0123456789'' ! nat (n mod 10)])"
  by pat_completeness auto
termination
  by (relation "measure nat") auto

declare digits_of.simps [simp del]

text \<open>\<open>str(i)\<close> and \<open>f"{i}"\<close> for an integer.\<close>

definition str_int :: "int \<Rightarrow> string" where
  "str_int i = (if i < 0 then ''-'' @ digits_of (- i) else digits_of i)"

definition round_half_even :: "rat \<Rightarrow> int" where
  "round_half_even x =
     (let f = \<lfloor>x\<rfloor>; r = x - of_int f
      in if r < 1 / 2 then f else if 1 / 2 < r then f + 1 else if even f then f else f + 1)"

definition zero_pad :: "nat \<Rightarrow> string \<Rightarrow> string" where
  "zero_pad d s = replicate (d - length s) CHR ''0'' @ s"

text \<open>The format \<open>f"{x:.<d>f}"\<close> for \<open>d > 0\<close>: \<open>d\<close> decimals, rounded to nearest.\<close>

definition fmt_f :: "nat \<Rightarrow> rat \<Rightarrow> string" where
  "fmt_f d x =
     (let n = round_half_even (\<bar>x\<bar> * 10 ^ d)
      in (if x < 0 then ''-'' else '''') @ digits_of (n div 10 ^ d) @ ''.'' @ zero_pad d (digits_of (n mod 10 ^ d)))"

text \<open>
  \<open>str(v)\<close> inside an error message. A string prints as itself; the rendering of a list or
  a dict is abbreviated to its brackets, and a float to two decimals.
\<close>

fun py_str :: "json \<Rightarrow> string" where
  "py_str JNull = ''None''"
| "py_str (JBool b) = (if b then ''True'' else ''False'')"
| "py_str (JInt i) = str_int i"
| "py_str (JFloat r) = fmt_f 2 r"
| "py_str (JStr s) = s"
| "py_str (JArr xs) = ''[...]''"
| "py_str (JObj kvs) = ''{...}''"

fun join :: "string \<Rightarrow> string list \<Rightarrow> string" where
  "join sep [] = []"
| "join sep [x] = x"
| "join sep (x # y # ys) = x @ sep @ join sep (y # ys)"

section \<open>Configuration\<close>

definition API_CALLS_PER_STOCK :: int where "API_CALLS_PER_STOCK = 4"
definition CALLS_PER_MINUTE :: int where "CALLS_PER_MINUTE = 5"
definition MAX_DAILY_CALLS :: int where "MAX_DAILY_CALLS = 25"
definition MIN_MARKET_CAP :: rat where "MIN_MARKET_CAP = 10000000000"
definition MIN_CURRENT_RATIO :: rat where "MIN_CURRENT_RATIO = 2"
definition MIN_DIVIDEND_YEARS :: nat where "MIN_DIVIDEND_YEARS = 20"
definition MIN_EARNINGS_GROWTH :: rat where "MIN_EARNINGS_GROWTH = 1 / 3"
definition MAX_PE_RATIO :: rat where "MAX_PE_RATIO = 15"
definition MAX_PB_RATIO :: rat where "MAX_PB_RATIO = 3 / 2"
definition MIN_EARNINGS_YEARS :: nat where "MIN_EARNINGS_YEARS = 10"

section \<open>The field extractor\<close>

text \<open>\<open>float(value)\<close> for a value that is not None; None stands for ValueError or TypeError.\<close>

fun py_float :: "json \<Rightarrow> rat option" where
  "py_float JNull = None"
| "py_float (JBool b) = Some (if b then 1 else 0)"
| "py_float (JInt i) = Some (of_int i)"
| "py_float (JFloat r) = Some r"
| "py_float (JStr s) = parse_float s"
| "py_float (JArr xs) = None"
| "py_float (JObj kvs) = None"

definition get_field :: "json \<Rightarrow> string \<Rightarrow> exc + rat" where
  "get_field data field =
     bindE (py_get data field) (\<lambda>value.
       if value = JNull \<or> value = JStr '''' \<or> value = JStr ''None'' \<or> value = JStr ''-''
       then Inl (ValueError (field @ '' N/A''))
       else case py_float value of
              Some x \<Rightarrow> Inr x
            | None \<Rightarrow> Inl (ValueError (field @ '' invalid: '' @ py_str value)))"

section \<open>The rule evaluators\<close>

text \<open>
  Every evaluator is a body that may raise, run under \<open>try: ... except Exception as e:
  return False, f"error ({str(e)})"\<close>.
\<close>

type_synonym outcome = "bool \<times> string"

definition guarded :: "exc + outcome \<Rightarrow> outcome" where
  "guarded r = (case r of Inl e \<Rightarrow> (False, ''error ('' @ str_exc e @ '')'') | Inr x \<Rightarrow> x)"

definition rule_1_body :: "json \<Rightarrow> exc + outcome" where
  "rule_1_body overview =
     bindE (get_field overview ''MarketCapitalization'') (\<lambda>market_cap.
       let passed = (MIN_MARKET_CAP < market_cap);
           msg = ''market cap $'' @ fmt_f 2 (market_cap / 1000000000) @ ''B''
       in Inr (passed, if passed then msg else msg @ '' (< $10B)''))"

definition check_rule_1_size :: "json \<Rightarrow> outcome" where
  "check_rule_1_size overview = guarded (rule_1_body overview)"

definition rule_7_body :: "json \<Rightarrow> exc + outcome" where
  "rule_7_body overview =
     bindE (get_field overview ''PriceToBookRatio'') (\<lambda>pb_ratio.
       let passed = (pb_ratio < MAX_PB_RATIO);
           msg = ''P/B '' @ fmt_f 2 pb_ratio
       in Inr (passed, if passed then msg else msg @ '' (>= 1.5)''))"

definition check_rule_7_price_to_book :: "json \<Rightarrow> outcome" where
  "check_rule_7_price_to_book overview = guarded (rule_7_body overview)"

text \<open>The test \<open>key not in d or not d[key]\<close> that opens Rules 2, 3 and 4.\<close>

definition missing_or_empty :: "string \<Rightarrow> json \<Rightarrow> exc + bool" where
  "missing_or_empty k d =
     bindE (py_contains k d) (\<lambda>present.
       if \<not> present then Inr True
       else bindE (py_getitem d k) (\<lambda>v. Inr (\<not> py_truthy v)))"

text \<open>Float division: a zero divisor raises.\<close>

definition py_div :: "rat \<Rightarrow> rat \<Rightarrow> exc + rat" where
  "py_div a b = (if b = 0 then Inl (ZeroDivisionError ''float division by zero'') else Inr (a / b))"

subsection \<open>Rule 2: financial condition\<close>

text \<open>One year of the interest-coverage list; the bare \<open>except\<close> turns any failure into N/A.\<close>

definition coverage_entry :: "json \<Rightarrow> string" where
  "coverage_entry report =
     (case bindE (get_field report ''ebit'') (\<lambda>ebit.
             bindE (get_field report ''interestExpense'') (\<lambda>interest_expense.
               if 0 < interest_expense
               then bindE (py_div ebit interest_expense) (\<lambda>coverage. Inr (fmt_f 2 coverage))
               else Inr ''N/A''))
      of Inl e \<Rightarrow> ''N/A'' | Inr s \<Rightarrow> s)"

definition interest_coverage_list :: "json \<Rightarrow> exc + string list" where
  "interest_coverage_list income_statement =
     bindE (py_contains ''annualReports'' income_statement) (\<lambda>present.
       if \<not> present then Inr []
       else bindE (py_getitem income_statement ''annualReports'') (\<lambda>reports.
         if \<not> py_truthy reports then Inr []
         else bindE (py_slice_to 7 reports) (\<lambda>first7.
              bindE (py_iter first7) (\<lambda>rs. Inr (map coverage_entry rs)))))"

definition interest_coverage_str :: "string list \<Rightarrow> string" where
  "interest_coverage_str coverage_list =
     (if coverage_list \<noteq> []
      then ''7-yr interest coverage: ['' @ join '', '' coverage_list @ '']''
      else ''Interest coverage: N/A'')"

definition rule_2_utility :: "rat option \<Rightarrow> string \<Rightarrow> outcome" where
  "rule_2_utility debt_to_equity_ratio coverage_str =
     (case debt_to_equity_ratio of
        None \<Rightarrow> (False, ''debt/equity N/A (negative equity), '' @ coverage_str)
      | Some ratio \<Rightarrow>
          if ratio < 2
          then (True, ''debt/equity '' @ fmt_f 2 ratio @ '', '' @ coverage_str)
          else (False, ''debt/equity '' @ fmt_f 2 ratio @ '' (>= 2.0), '' @ coverage_str))"

definition rule_2_non_utility :: "json \<Rightarrow> rat \<Rightarrow> string \<Rightarrow> exc + outcome" where
  "rule_2_non_utility latest long_term_debt coverage_str =
     bindE (get_field latest ''totalCurrentAssets'') (\<lambda>current_assets.
     bindE (get_field latest ''totalCurrentLiabilities'') (\<lambda>current_liabilities.
     bindE (py_div current_assets current_liabilities) (\<lambda>current_ratio.
       let working_capital = current_assets - current_liabilities;
           ratio_ok = (MIN_CURRENT_RATIO < current_ratio);
           debt_ok = (long_term_debt < working_capital);
           part1 = (if ratio_ok then ''current ratio '' @ fmt_f 2 current_ratio
                    else ''current ratio '' @ fmt_f 2 current_ratio @ '' (<= 2.0)'');
           part2 = (if debt_ok
                    then ''long-term debt $'' @ fmt_f 1 (long_term_debt / 1000000)
                         @ ''M, working capital $'' @ fmt_f 1 (working_capital / 1000000) @ ''M''
                    else ''long-term debt $'' @ fmt_f 1 (long_term_debt / 1000000)
                         @ ''M (>= working capital $'' @ fmt_f 1 (working_capital / 1000000) @ ''M)'')
       in Inr (ratio_ok \<and> debt_ok, join '', '' [part1, part2, coverage_str]))))"

text \<open>Rule 2 from the latest balance-sheet report on.\<close>

definition rule_2_latest :: "json \<Rightarrow> json \<Rightarrow> json \<Rightarrow> exc + outcome" where
  "rule_2_latest latest income_statement overview =
     bindE (get_field latest ''longTermDebt'') (\<lambda>long_term_debt.
     bindE (get_field latest ''shortTermDebt'') (\<lambda>short_term_debt.
     bindE (get_field latest ''totalShareholderEquity'') (\<lambda>total_equity.
       let total_debt = long_term_debt + short_term_debt;
           debt_to_equity_ratio = (if 0 < total_equity then Some (total_debt / total_equity) else None)
       in
         bindE (interest_coverage_list income_statement) (\<lambda>coverage_list.
         bindE (py_get_default overview ''Sector'' (JStr [])) (\<lambda>sector_value.
         bindE (py_lower sector_value) (\<lambda>sector.
           if sector = ''utilities''
           then Inr (rule_2_utility debt_to_equity_ratio (interest_coverage_str coverage_list))
           else rule_2_non_utility latest long_term_debt (interest_coverage_str coverage_list)))))))"

definition rule_2_body :: "json \<Rightarrow> json \<Rightarrow> json \<Rightarrow> exc + outcome" where
  "rule_2_body balance_sheet income_statement overview =
     bindE (missing_or_empty ''annualReports'' balance_sheet) (\<lambda>no_data.
       if no_data then Inr (False, ''no balance sheet data'')
       else
         bindE (py_getitem balance_sheet ''annualReports'') (\<lambda>reports.
         bindE (py_first reports) (\<lambda>latest.
           rule_2_latest latest income_statement overview)))"

definition check_rule_2_financial_condition :: "json \<Rightarrow> json \<Rightarrow> json \<Rightarrow> outcome" where
  "check_rule_2_financial_condition balance_sheet income_statement overview =
     guarded (rule_2_body balance_sheet income_statement overview)"

subsection \<open>Rule 3: earnings stability\<close>

text \<open>\<open>sum(1 for r in reports if get_field(r, 'netIncome') > 0)\<close>: the first unusable year raises.\<close>

fun count_positive :: "json list \<Rightarrow> exc + nat" where
  "count_positive [] = Inr 0"
| "count_positive (r # rs) =
     (case get_field r ''netIncome'' of
        Inl e \<Rightarrow> Inl e
      | Inr net_income \<Rightarrow>
          (case count_positive rs of
             Inl e \<Rightarrow> Inl e
           | Inr c \<Rightarrow> Inr (if 0 < net_income then c + 1 else c)))"

definition rule_3_body :: "json \<Rightarrow> exc + outcome" where
  "rule_3_body income_statement =
     bindE (missing_or_empty ''annualReports'' income_statement) (\<lambda>no_data.
       if no_data then Inr (False, ''no income statement data'')
       else
         bindE (py_getitem income_statement ''annualReports'') (\<lambda>all_reports.
         bindE (py_slice_to MIN_EARNINGS_YEARS all_reports) (\<lambda>reports.
         bindE (py_len reports) (\<lambda>n.
           if n < MIN_EARNINGS_YEARS
           then Inr (False, ''need '' @ str_int (int MIN_EARNINGS_YEARS) @ '' years of data (only ''
                            @ str_int (int n) @ '' available)'')
           else
             bindE (py_iter reports) (\<lambda>rs.
             bindE (count_positive rs) (\<lambda>positive_years.
               Inr (positive_years = MIN_EARNINGS_YEARS,
                    ''positive earnings '' @ str_int (int positive_years) @ ''/''
                      @ str_int (int MIN_EARNINGS_YEARS) @ '' years'')))))))"

definition check_rule_3_earnings_stability :: "json \<Rightarrow> outcome" where
  "check_rule_3_earnings_stability income_statement = guarded (rule_3_body income_statement)"

subsection \<open>Rule 4: dividend record\<close>

text \<open>
  \<open>datetime.strptime(s, '%Y-%m-%d').year\<close>. The directive \<open>%Y\<close> takes four digits,
  \<open>%m\<close> one or two digits naming 1 to 12, \<open>%d\<close> one or two digits naming 1 to 31 (or a
  blank and one digit); the whole string must be consumed and the date must exist.
  None stands for the ValueError.
\<close>

definition month_of :: "string \<Rightarrow> int option" where
  "month_of m =
     (if (length m = 1 \<or> length m = 2) \<and> list_all is_digit m \<and> 1 \<le> digits_val m \<and> digits_val m \<le> 12
      then Some (digits_val m) else None)"

definition day_of :: "string \<Rightarrow> int option" where
  "day_of d =
     (if (length d = 1 \<or> length d = 2) \<and> list_all is_digit d \<and> 1 \<le> digits_val d \<and> digits_val d \<le> 31
      then Some (digits_val d)
      else case d of
             [b, c] \<Rightarrow> if b = CHR '' '' \<and> is_digit c \<and> 1 \<le> digit_val c then Some (digit_val c) else None
           | _ \<Rightarrow> None)"

definition is_leap :: "int \<Rightarrow> bool" where
  "is_leap y = (y mod 4 = 0 \<and> (y mod 100 \<noteq> 0 \<or> y mod 400 = 0))"

definition days_in_month :: "int \<Rightarrow> int \<Rightarrow> int" where
  "days_in_month y m =
     (if m = 2 then (if is_leap y then 29 else 28)
      else if m = 4 \<or> m = 6 \<or> m = 9 \<or> m = 11 then 30 else 31)"

definition strptime_year :: "string \<Rightarrow> int option" where
  "strptime_year s =
     (let y = take 4 s in
      if length y = 4 \<and> list_all is_digit y then
        (case drop 4 s of
           [] \<Rightarrow> None
         | c # r \<Rightarrow>
             if c \<noteq> CHR ''-'' then None
             else
               (case dropWhile (\<lambda>c. c \<noteq> CHR ''-'') r of
                  [] \<Rightarrow> None
                | h # d \<Rightarrow>
                    (case month_of (takeWhile (\<lambda>c. c \<noteq> CHR ''-'') r) of
                       None \<Rightarrow> None
                     | Some month \<Rightarrow>
                         (case day_of d of
                            None \<Rightarrow> None
                          | Some day \<Rightarrow>
                              if 1 \<le> digits_val y \<and> day \<le> days_in_month (digits_val y) month
                              then Some (digits_val y) else None))))
      else None)"

text \<open>
  One turn of the loop over the dividend records: the year the record adds to the set, if any.
  \<open>record.get\<close> is outside the inner \<open>try\<close>; a date that is not a string makes
  \<open>strptime\<close> raise TypeError inside it.
\<close>

definition record_year :: "json \<Rightarrow> exc + int option" where
  "record_year record =
     bindE (py_get record ''ex_dividend_date'') (\<lambda>ex_date.
       if py_truthy ex_date
       then Inr (case ex_date of JStr s \<Rightarrow> strptime_year s | _ \<Rightarrow> None)
       else Inr None)"

fun collect_years :: "json list \<Rightarrow> int set \<Rightarrow> exc + int set" where
  "collect_years [] years_with_dividends = Inr years_with_dividends"
| "collect_years (record # records) years_with_dividends =
     (case record_year record of
        Inl e \<Rightarrow> Inl e
      | Inr None \<Rightarrow> collect_years records years_with_dividends
      | Inr (Some year) \<Rightarrow> collect_years records (insert year years_with_dividends))"

text \<open>
  The loop over \<open>sorted_years\<close>: the first argument is the previous year (None at index 0),
  the last the counter \<open>consecutive_years\<close>; \<open>break\<close> returns the counter.
\<close>

fun count_consecutive :: "int option \<Rightarrow> int list \<Rightarrow> nat \<Rightarrow> nat" where
  "count_consecutive prev [] consecutive_years = consecutive_years"
| "count_consecutive None (year # rest) consecutive_years = count_consecutive (Some year) rest 1"
| "count_consecutive (Some p) (year # rest) consecutive_years =
     (if year = p - 1 then count_consecutive (Some year) rest (consecutive_years + 1)
      else consecutive_years)"

definition rule_4_body :: "json \<Rightarrow> json \<Rightarrow> exc + outcome" where
  "rule_4_body overview dividends =
     bindE (get_field overview ''DividendYield'') (\<lambda>dividend_yield.
     bindE (missing_or_empty ''data'' dividends) (\<lambda>no_data.
       if no_data
       then Inr (False, ''dividend yield '' @ fmt_f 2 (dividend_yield * 100) @ ''% (history not available)'')
       else
         bindE (py_getitem dividends ''data'') (\<lambda>dividend_data.
         bindE (py_iter dividend_data) (\<lambda>records.
         bindE (collect_years records {}) (\<lambda>years_with_dividends.
           if years_with_dividends = {} then Inr (False, ''no valid dividend dates found'')
           else
             let sorted_years = rev (sorted_list_of_set years_with_dividends);
                 consecutive_years = count_consecutive None sorted_years 0
             in if MIN_DIVIDEND_YEARS \<le> consecutive_years
                then Inr (True, ''dividend yield '' @ fmt_f 2 (dividend_yield * 100) @ ''%, ''
                                @ str_int (int consecutive_years) @ '' consecutive years'')
                else Inr (False, ''only '' @ str_int (int consecutive_years) @ '' consecutive years (< ''
                                 @ str_int (int MIN_DIVIDEND_YEARS) @ '')''))))))"

definition check_rule_4_dividend_record :: "json \<Rightarrow> json \<Rightarrow> outcome" where
  "check_rule_4_dividend_record overview dividends = guarded (rule_4_body overview dividends)"

subsection \<open>Rules 5 and 6: earnings per share\<close>

text \<open>The test \<open>'annualReports' not in s or len(s['annualReports']) < n\<close>.\<close>

definition fewer_reports :: "nat \<Rightarrow> json \<Rightarrow> exc + bool" where
  "fewer_reports n s =
     bindE (py_contains ''annualReports'' s) (\<lambda>present.
       if \<not> present then Inr True
       else bindE (py_getitem s ''annualReports'') (\<lambda>v.
            bindE (py_len v) (\<lambda>l. Inr (l < n))))"

text \<open>\<open>len(s.get('annualReports', []))\<close>.\<close>

definition years_available :: "json \<Rightarrow> exc + nat" where
  "years_available s = bindE (py_get_default s ''annualReports'' (JArr [])) py_len"

text \<open>
  One turn of the loop over \<open>zip(income_reports, balance_reports)\<close>: the year's earnings per
  share, or None when the bare \<open>except\<close> fires.
\<close>

definition eps_of :: "json \<times> json \<Rightarrow> rat option" where
  "eps_of pair =
     (case bindE (get_field (fst pair) ''netIncome'') (\<lambda>net_income.
             bindE (get_field (snd pair) ''commonStockSharesOutstanding'') (\<lambda>shares_outstanding.
               py_div net_income shares_outstanding))
      of Inl e \<Rightarrow> None | Inr eps \<Rightarrow> Some eps)"

text \<open>The first \<open>n\<close> reports of both statements, zipped.\<close>

definition zipped_reports :: "nat \<Rightarrow> json \<Rightarrow> json \<Rightarrow> exc + (json \<times> json) list" where
  "zipped_reports n income_statement balance_sheet =
     bindE (py_getitem income_statement ''annualReports'') (\<lambda>income_all.
     bindE (py_slice_to n income_all) (\<lambda>income_reports.
     bindE (py_getitem balance_sheet ''annualReports'') (\<lambda>balance_all.
     bindE (py_slice_to n balance_all) (\<lambda>balance_reports.
     bindE (py_iter income_reports) (\<lambda>irs.
     bindE (py_iter balance_reports) (\<lambda>brs. Inr (zip irs brs)))))))"

definition py_index :: "'a list \<Rightarrow> nat \<Rightarrow> exc + 'a" where
  "py_index xs i = (if i < length xs then Inr (xs ! i) else Inl (IndexError ''list index out of range''))"

text \<open>\<open>[eps_values[i] for i in idx if eps_values[i] is not None]\<close>.\<close>

fun pick :: "rat option list \<Rightarrow> nat list \<Rightarrow> exc + rat list" where
  "pick eps_values [] = Inr []"
| "pick eps_values (i # idx) =
     (case py_index eps_values i of
        Inl e \<Rightarrow> Inl e
      | Inr None \<Rightarrow> pick eps_values idx
      | Inr (Some x) \<Rightarrow> (case pick eps_values idx of Inl e \<Rightarrow> Inl e | Inr xs \<Rightarrow> Inr (x # xs)))"

definition arrow :: string where
  "arrow = [CHR 0xE2, CHR 0x86, CHR 0x92]"

definition eps_strs :: "rat list \<Rightarrow> string" where
  "eps_strs xs = join '', '' (map (\<lambda>eps. ''$'' @ fmt_f 2 eps) xs)"

definition rule_5_growth :: "rat list \<Rightarrow> rat list \<Rightarrow> exc + outcome" where
  "rule_5_growth ending_eps beginning_eps =
     bindE (py_div (sum_list ending_eps) (of_nat (length ending_eps))) (\<lambda>ending_avg.
     bindE (py_div (sum_list beginning_eps) (of_nat (length beginning_eps))) (\<lambda>beginning_avg.
       if beginning_avg \<le> 0 then Inr (False, ''starting 3-year average EPS not positive'')
       else
         bindE (py_div (ending_avg - beginning_avg) \<bar>beginning_avg\<bar>) (\<lambda>growth.
           let passed = (MIN_EARNINGS_GROWTH < growth);
               head = ''EPS growth '' @ fmt_f 1 (growth * 100) @ ''% (3-yr avg $'' @ fmt_f 2 beginning_avg
                      @ '' '' @ arrow @ '' $'' @ fmt_f 2 ending_avg @ '')'';
               tail = '', beginning 3-yr EPS ['' @ eps_strs beginning_eps
                      @ ''], ending 3-yr EPS ['' @ eps_strs ending_eps @ '']''
           in if passed then Inr (passed, head @ tail)
              else Inr (passed, head @ '' (<= 33.3%, per-share basis)'' @ tail))))"

text \<open>Rule 5 from the list \<open>eps_values\<close> on.\<close>

definition rule_5_from_eps :: "rat option list \<Rightarrow> exc + outcome" where
  "rule_5_from_eps eps_values =
     (let usable = length (filter (\<lambda>e. e \<noteq> None) eps_values)
      in if usable < 10
         then Inr (False, ''need 10 years of EPS data (only '' @ str_int (int usable) @ '' available)'')
         else
           bindE (pick eps_values [0, 1, 2]) (\<lambda>ending_eps.
           bindE (pick eps_values [7, 8, 9]) (\<lambda>beginning_eps.
             if length ending_eps < 3 \<or> length beginning_eps < 3
             then Inr (False, ''insufficient EPS data for 3-year averages'')
             else rule_5_growth ending_eps beginning_eps)))"

definition rule_5_body :: "json \<Rightarrow> json \<Rightarrow> exc + outcome" where
  "rule_5_body income_statement balance_sheet =
     bindE (fewer_reports 10 income_statement) (\<lambda>income_short.
       if income_short
       then bindE (years_available income_statement) (\<lambda>years.
              Inr (False, ''need 10 years of data (only '' @ str_int (int years) @ '' available)''))
       else
         bindE (fewer_reports 10 balance_sheet) (\<lambda>balance_short.
           if balance_short
           then bindE (years_available balance_sheet) (\<lambda>years.
                  Inr (False, ''need 10 years of balance sheet data (only '' @ str_int (int years) @ '' available)''))
           else
             bindE (zipped_reports 10 income_statement balance_sheet) (\<lambda>pairs.
               rule_5_from_eps (map eps_of pairs))))"

definition check_rule_5_earnings_growth :: "json \<Rightarrow> json \<Rightarrow> outcome" where
  "check_rule_5_earnings_growth income_statement balance_sheet =
     guarded (rule_5_body income_statement balance_sheet)"

definition rule_6_ratio :: "rat \<Rightarrow> rat list \<Rightarrow> exc + outcome" where
  "rule_6_ratio price eps_values =
     bindE (py_div (sum_list eps_values) (of_nat (length eps_values))) (\<lambda>avg_eps.
       if avg_eps \<le> 0 then Inr (False, ''3-year average EPS not positive'')
       else
         bindE (py_div price avg_eps) (\<lambda>price_to_avg_earnings.
           let passed = (price_to_avg_earnings < MAX_PE_RATIO)
           in if passed
              then Inr (passed, ''price/avg earnings '' @ fmt_f 2 price_to_avg_earnings @ '' (price $''
                                @ fmt_f 2 price @ '', 3-yr avg EPS $'' @ fmt_f 2 avg_eps @ ''), 3-yr EPS [''
                                @ eps_strs eps_values @ '']'')
              else Inr (passed, ''price/avg earnings '' @ fmt_f 2 price_to_avg_earnings @ '' (>= 15), price $''
                                @ fmt_f 2 price @ '', 3-yr EPS ['' @ eps_strs eps_values @ '']'')))"

text \<open>Rule 6 from the list \<open>eps_values\<close> on; a year whose EPS fails is left out of the list.\<close>

definition rule_6_from_eps :: "rat \<Rightarrow> rat list \<Rightarrow> exc + outcome" where
  "rule_6_from_eps price eps_values =
     (if length eps_values < 3 then Inr (False, ''need 3 years of EPS data'')
      else rule_6_ratio price eps_values)"

definition rule_6_body :: "json \<Rightarrow> json \<Rightarrow> json \<Rightarrow> exc + outcome" where
  "rule_6_body overview income_statement balance_sheet =
     bindE (get_field overview ''50DayMovingAverage'') (\<lambda>price.
     bindE (fewer_reports 3 income_statement) (\<lambda>income_short.
       if income_short then Inr (False, ''need 3 years of earnings data'')
       else
         bindE (fewer_reports 3 balance_sheet) (\<lambda>balance_short.
           if balance_short then Inr (False, ''need 3 years of balance sheet data'')
           else
             bindE (zipped_reports 3 income_statement balance_sheet) (\<lambda>pairs.
               rule_6_from_eps price (List.map_filter eps_of pairs)))))"

definition check_rule_6_pe_ratio :: "json \<Rightarrow> json \<Rightarrow> json \<Rightarrow> outcome" where
  "check_rule_6_pe_ratio overview income_statement balance_sheet =
     guarded (rule_6_body overview income_statement balance_sheet)"

section \<open>The quota-limited client\<close>

text \<open>
  The client object, and what lies outside it: a clock that \<open>time.time()\<close> reads and
  \<open>time.sleep\<close> advances, the total time slept, and the requests handed to
  \<open>requests.get\<close>, newest first, each with the clock at its dispatch. Console output is not
  part of the model.
\<close>

record client =
  api_key :: string
  calls_per_minute :: int
  min_delay :: rat
  last_call_time :: rat
  daily_calls :: int
  max_daily_calls :: int

record world =
  clock :: rat
  slept :: rat
  sent :: "(rat \<times> (string \<times> string) list) list"

text \<open>\<open>__init__\<close>: \<open>calls_per_minute or Config.CALLS_PER_MINUTE\<close> replaces None and 0.\<close>

definition init_client :: "string \<Rightarrow> int option \<Rightarrow> client" where
  "init_client key cpm =
     (let n = (case cpm of None \<Rightarrow> CALLS_PER_MINUTE | Some k \<Rightarrow> if k = 0 then CALLS_PER_MINUTE else k)
      in \<lparr>api_key = key, calls_per_minute = n, min_delay = 60 / of_int n, last_call_time = 0,
          daily_calls = 0, max_daily_calls = MAX_DAILY_CALLS\<rparr>)"

definition sleep :: "rat \<Rightarrow> world \<Rightarrow> world" where
  "sleep d w = w\<lparr>clock := clock w + d, slept := slept w + d\<rparr>"

definition rate_limit :: "client \<Rightarrow> world \<Rightarrow> client \<times> world" where
  "rate_limit c w =
     (let elapsed = clock w - last_call_time c;
          w1 = (if elapsed < min_delay c then sleep (min_delay c - elapsed) w else w)
      in (c\<lparr>last_call_time := clock w1, daily_calls := daily_calls c + 1\<rparr>, w1))"

text \<open>
  What \<open>requests.get\<close> does with a dispatched request: it raises, or it returns a status code
  and a body that \<open>response.json()\<close> parses (None when parsing raises).
\<close>

datatype http_reply = Transport_error string | Http_response int "json option"

definition response_data :: "http_reply \<Rightarrow> json option" where
  "response_data reply =
     (case reply of
        Transport_error m \<Rightarrow> None
      | Http_response status_code body \<Rightarrow>
          (if status_code \<noteq> 200 then None
           else (case body of
                   None \<Rightarrow> None
                 | Some data \<Rightarrow>
                     (case py_contains ''Information'' data of
                        Inl e \<Rightarrow> None
                      | Inr found \<Rightarrow> if found then None else Some data))))"

text \<open>\<open>_make_request\<close>; \<open>latency\<close> is the time the exchange with the provider takes.\<close>

definition make_request ::
  "(string \<times> string) list \<Rightarrow> http_reply \<Rightarrow> rat \<Rightarrow> client \<Rightarrow> world \<Rightarrow> json option \<times> client \<times> world" where
  "make_request params reply latency c w =
     (if max_daily_calls c \<le> daily_calls c then (None, c, w)
      else
        let (c1, w1) = rate_limit c w;
            params1 = params @ [(''apikey'', api_key c1)];
            w2 = w1\<lparr>sent := (clock w1, params1) # sent w1, clock := clock w1 + latency\<rparr>
        in (response_data reply, c1, w2))"

definition get_data ::
  "string \<Rightarrow> string \<Rightarrow> http_reply \<Rightarrow> rat \<Rightarrow> client \<Rightarrow> world \<Rightarrow> json option \<times> client \<times> world" where
  "get_data function symbol = make_request [(''function'', function), (''symbol'', symbol)]"

definition get_overview ::
  "string \<Rightarrow> http_reply \<Rightarrow> rat \<Rightarrow> client \<Rightarrow> world \<Rightarrow> json option \<times> client \<times> world" where
  "get_overview symbol = get_data ''OVERVIEW'' symbol"

definition get_income_statement ::
  "string \<Rightarrow> http_reply \<Rightarrow> rat \<Rightarrow> client \<Rightarrow> world \<Rightarrow> json option \<times> client \<times> world" where
  "get_income_statement symbol = get_data ''INCOME_STATEMENT'' symbol"

definition get_balance_sheet ::
  "string \<Rightarrow> http_reply \<Rightarrow> rat \<Rightarrow> client \<Rightarrow> world \<Rightarrow> json option \<times> client \<times> world" where
  "get_balance_sheet symbol = get_data ''BALANCE_SHEET'' symbol"

definition get_cash_flow ::
  "string \<Rightarrow> http_reply \<Rightarrow> rat \<Rightarrow> client \<Rightarrow> world \<Rightarrow> json option \<times> client \<times> world" where
  "get_cash_flow symbol = get_data ''CASH_FLOW'' symbol"

definition get_dividends ::
  "string \<Rightarrow> http_reply \<Rightarrow> rat \<Rightarrow> client \<Rightarrow> world \<Rightarrow> json option \<times> client \<times> world" where
  "get_dividends symbol = make_request [(''function'', ''DIVIDENDS''), (''symbol'', symbol)]"

text \<open>
  A caller's history: fetches of any kind, each with the provider's reply and the time it
  takes, and idle time in between.
\<close>

datatype fetch = Overview | Income_statement | Balance_sheet | Cash_flow | Dividends

fun do_fetch ::
  "fetch \<Rightarrow> string \<Rightarrow> http_reply \<Rightarrow> rat \<Rightarrow> client \<Rightarrow> world \<Rightarrow> json option \<times> client \<times> world" where
  "do_fetch Overview = get_overview"
| "do_fetch Income_statement = get_income_statement"
| "do_fetch Balance_sheet = get_balance_sheet"
| "do_fetch Cash_flow = get_cash_flow"
| "do_fetch Dividends = get_dividends"

datatype event = Idle rat | Fetch fetch string http_reply rat

fun event_ok :: "event \<Rightarrow> bool" where
  "event_ok (Idle d) = (0 \<le> d)"
| "event_ok (Fetch f symbol reply latency) = (0 \<le> latency)"

fun step :: "event \<Rightarrow> client \<times> world \<Rightarrow> client \<times> world" where
  "step (Idle d) (c, w) = (c, w\<lparr>clock := clock w + d\<rparr>)"
| "step (Fetch f symbol reply latency) (c, w) = snd (do_fetch f symbol reply latency c w)"

fun run :: "event list \<Rightarrow> client \<times> world \<Rightarrow> client \<times> world" where
  "run [] s = s"
| "run (e # es) s = run es (step e s)"

section \<open>The screening aggregator\<close>

record screening =
  ticker :: string
  company_name :: json
  current_price :: json
  rules_passed :: "string list"
  rules_failed :: "string list"
  rule_details :: "(string \<times> string) list"
  total_passed :: nat
  passes_all :: bool

text \<open>\<open>d[k] = v\<close> on a dict kept in insertion order.\<close>

fun dict_set :: "(string \<times> string) list \<Rightarrow> string \<Rightarrow> string \<Rightarrow> (string \<times> string) list" where
  "dict_set [] k v = [(k, v)]"
| "dict_set ((k', v') # kvs) k v = (if k' = k then (k, v) # kvs else (k', v') # dict_set kvs k v)"

text \<open>\<open>x or {}\<close> for a fetched dataset.\<close>

definition or_empty :: "json option \<Rightarrow> json" where
  "or_empty x = (case x of None \<Rightarrow> JObj [] | Some v \<Rightarrow> if py_truthy v then v else JObj [])"

definition rules :: "json \<Rightarrow> json \<Rightarrow> json \<Rightarrow> json \<Rightarrow> (string \<times> outcome) list" where
  "rules overview income_statement balance_sheet dividends =
     [(''Rule 1 (adequate size)'', check_rule_1_size overview),
      (''Rule 2 (strong financial condition)'',
         check_rule_2_financial_condition balance_sheet income_statement overview),
      (''Rule 3 (earnings stability)'', check_rule_3_earnings_stability income_statement),
      (''Rule 4 (dividend record)'', check_rule_4_dividend_record overview dividends),
      (''Rule 5 (earnings growth)'', check_rule_5_earnings_growth income_statement balance_sheet),
      (''Rule 6 (moderate P/E)'', check_rule_6_pe_ratio overview income_statement balance_sheet),
      (''Rule 7 (moderate P/B)'', check_rule_7_price_to_book overview)]"

text \<open>The loop \<open>for rule_name, (passed, detail) in rules\<close>.\<close>

fun record_rules :: "(string \<times> outcome) list \<Rightarrow> screening \<Rightarrow> screening" where
  "record_rules [] results = results"
| "record_rules ((rule_name, (passed, detail)) # rest) results =
     record_rules rest
       (let r = results\<lparr>rule_details := dict_set (rule_details results) rule_name detail\<rparr>
        in if passed then r\<lparr>rules_passed := rules_passed r @ [rule_name]\<rparr>
           else r\<lparr>rules_failed := rules_failed r @ [rule_name]\<rparr>)"

definition tally :: "screening \<Rightarrow> screening" where
  "tally results =
     (let r = results\<lparr>total_passed := length (rules_passed results)\<rparr>
      in r\<lparr>passes_all := (total_passed r = 7)\<rparr>)"

text \<open>
  \<open>evaluate_stock\<close>, with \<open>net\<close> giving the provider's reply and latency for each of the
  four requests. Any exception inside it returns None.
\<close>

definition build_results :: "string \<Rightarrow> json \<Rightarrow> (string \<times> outcome) list \<Rightarrow> exc + screening" where
  "build_results tkr overview rs =
     bindE (py_get_default overview ''Name'' (JStr tkr)) (\<lambda>name.
     bindE (py_get_default overview ''50DayMovingAverage'' (JStr ''N/A'')) (\<lambda>price.
       Inr (tally (record_rules rs
              \<lparr>ticker = tkr, company_name = name, current_price = price,
               rules_passed = [], rules_failed = [], rule_details = [],
               total_passed = 0, passes_all = False\<rparr>))))"

definition evaluate_stock ::
  "string \<Rightarrow> (fetch \<Rightarrow> http_reply \<times> rat) \<Rightarrow> client \<Rightarrow> world \<Rightarrow> screening option \<times> client \<times> world" where
  "evaluate_stock tkr net c w =
     (let (overview, c1, w1) = get_overview tkr (fst (net Overview)) (snd (net Overview)) c w
      in case overview of
           None \<Rightarrow> (None, c1, w1)
         | Some ov \<Rightarrow>
             (if \<not> py_truthy ov then (None, c1, w1)
              else (case py_get ov ''Symbol'' of
                      Inl e \<Rightarrow> (None, c1, w1)
                    | Inr symbol \<Rightarrow>
                        (if \<not> py_truthy symbol then (None, c1, w1)
                         else
                           (let (income_statement, c2, w2) =
                                  get_income_statement tkr (fst (net Income_statement)) (snd (net Income_statement)) c1 w1;
                                (balance_sheet, c3, w3) =
                                  get_balance_sheet tkr (fst (net Balance_sheet)) (snd (net Balance_sheet)) c2 w2;
                                (dividends, c4, w4) =
                                  get_dividends tkr (fst (net Dividends)) (snd (net Dividends)) c3 w3;
                                rs = rules ov (or_empty income_statement) (or_empty balance_sheet) (or_empty dividends)
                            in (case build_results tkr ov rs of
                                  Inl e \<Rightarrow> (None, c4, w4)
                                | Inr results \<Rightarrow> (Some results, c4, w4)))))))"

section \<open>Notions used by the properties\<close>

text \<open>The counter of the client and the log of dispatched requests move together, below the ceiling.\<close>

definition quota_inv :: "int \<Rightarrow> int \<Rightarrow> client \<times> world \<Rightarrow> bool" where
  "quota_inv m k s =
     (max_daily_calls (fst s) = m \<and> daily_calls (fst s) \<le> m
      \<and> int (length (sent (snd s))) = daily_calls (fst s) + k)"

text \<open>A log, newest first, whose consecutive dispatch instants are at least \<open>d\<close> apart.\<close>

fun spaced :: "rat \<Rightarrow> (rat \<times> 'a) list \<Rightarrow> bool" where
  "spaced d [] = True"
| "spaced d [x] = True"
| "spaced d (x # y # r) = (fst y + d \<le> fst x \<and> spaced d (y # r))"

definition spacing_inv :: "rat \<Rightarrow> client \<times> world \<Rightarrow> bool" where
  "spacing_inv d s =
     (min_delay (fst s) = d \<and> spaced d (sent (snd s))
      \<and> (sent (snd s) \<noteq> [] \<longrightarrow>
            fst (hd (sent (snd s))) = last_call_time (fst s) \<and> last_call_time (fst s) \<le> clock (snd s)))"

subsection \<open>Sample inputs\<close>

definition start_world :: world where
  "start_world = \<lparr>clock = 1000, slept = 0, sent = []\<rparr>"

text \<open>A client with ceiling 2 after two dispatched calls.\<close>

definition two_calls :: "client \<times> world" where
  "two_calls =
     run [Fetch Overview ''IBM'' (Http_response 200 (Some (JObj []))) 1,
          Fetch Dividends ''IBM'' (Transport_error ''timeout'') 30]
       ((init_client ''key'' None)\<lparr>max_daily_calls := 2\<rparr>, start_world)"

definition three_events :: "event list" where
  "three_events =
     [Fetch Overview ''IBM'' (Http_response 200 (Some (JObj []))) 1,
      Idle 2,
      Fetch Dividends ''IBM'' (Transport_error ''timeout'') 30,
      Fetch Balance_sheet ''IBM'' (Http_response 500 None) 0]"

text \<open>A provider that knows the company but returns no statements.\<close>

definition sample_overview :: json where
  "sample_overview =
     JObj [(''Symbol'', JStr ''IBM''), (''Name'', JStr ''International Business Machines''),
           (''Sector'', JStr ''TECHNOLOGY''), (''MarketCapitalization'', JStr ''212000000000''),
           (''DividendYield'', JStr ''0.0294''), (''50DayMovingAverage'', JStr ''228.50''),
           (''PriceToBookRatio'', JStr ''1.2'')]"

definition overview_only :: "fetch \<Rightarrow> http_reply \<times> rat" where
  "overview_only f =
     (case f of
        Overview \<Rightarrow> (Http_response 200 (Some sample_overview), 1)
      | _ \<Rightarrow> (Http_response 200 (Some (JObj [(''Information'', JStr ''rate limit'')])), 1))"

subsection \<open>Well-formed datasets\<close>

text \<open>The annual series of a statement: the list under \<open>annualReports\<close>, when there is one.\<close>

definition reports_of :: "json \<Rightarrow> json list option" where
  "reports_of s =
     (case s of
        JObj kvs \<Rightarrow> (case map_of kvs ''annualReports'' of Some (JArr xs) \<Rightarrow> Some xs | _ \<Rightarrow> None)
      | _ \<Rightarrow> None)"

text \<open>The number a record holds in a field, when \<open>get_field\<close> returns one.\<close>

definition field_of :: "json \<Rightarrow> string \<Rightarrow> rat option" where
  "field_of r f = (case get_field r f of Inl e \<Rightarrow> None | Inr x \<Rightarrow> Some x)"


subsection \<open>Sample statements\<close>

definition annual :: "string \<Rightarrow> string \<Rightarrow> string \<Rightarrow> json" where
  "annual date net_income shares =
     JObj [(''fiscalDateEnding'', JStr date), (''netIncome'', JStr net_income),
           (''commonStockSharesOutstanding'', JStr shares)]"

definition statement :: "json list \<Rightarrow> json" where
  "statement xs = JObj [(''symbol'', JStr ''IBM''), (''annualReports'', JArr xs)]"

text \<open>Ten years, newest first; the year 2017 closed with a loss.\<close>

definition nine_of_ten :: "json list" where
  "nine_of_ten =
     [annual ''2023-12-31'' ''140'' ''100'', annual ''2022-12-31'' ''130'' ''100'',
      annual ''2021-12-31'' ''150'' ''100'', annual ''2020-12-31'' ''120'' ''100'',
      annual ''2019-12-31'' ''110'' ''100'', annual ''2018-12-31'' ''105'' ''100'',
      annual ''2017-12-31'' ''-20'' ''100'', annual ''2016-12-31'' ''100'' ''100'',
      annual ''2015-12-31'' ''100'' ''100'', annual ''2014-12-31'' ''100'' ''100'']"






definition balance :: "string \<Rightarrow> string \<Rightarrow> string \<Rightarrow> string \<Rightarrow> string \<Rightarrow> json" where
  "balance long_term short_term equity assets liabilities =
     JObj [(''longTermDebt'', JStr long_term), (''shortTermDebt'', JStr short_term),
           (''totalShareholderEquity'', JStr equity), (''totalCurrentAssets'', JStr assets),
           (''totalCurrentLiabilities'', JStr liabilities)]"











subsection \<open>Dividend histories\<close>






definition paid :: "string \<Rightarrow> json" where
  "paid date = JObj [(''ex_dividend_date'', JStr date), (''amount'', JStr ''1.66'')]"

definition history :: "string list \<Rightarrow> json" where
  "history dates = JObj [(''symbol'', JStr ''IBM''), (''data'', JArr (map paid dates))]"



subsection \<open>Earnings per share\<close>

text \<open>
  The earnings per share of one year: the net income of the income report divided by the
  common shares outstanding of the balance-sheet report, when both are usable and the share
  count is not zero.
\<close>

definition eps_at :: "json \<Rightarrow> json \<Rightarrow> rat option" where
  "eps_at income_report balance_report =
     (case field_of income_report ''netIncome'' of
        None \<Rightarrow> None
      | Some net_income \<Rightarrow>
          (case field_of balance_report ''commonStockSharesOutstanding'' of
             None \<Rightarrow> None
           | Some shares \<Rightarrow> if shares = 0 then None else Some (net_income / shares)))"


text \<open>A balance-sheet series that starts one fiscal year earlier than \<open>nine_of_ten\<close>.\<close>

definition shifted_balance :: "json list" where
  "shifted_balance =
     [annual ''2022-12-31'' ''0'' ''200'', annual ''2021-12-31'' ''0'' ''200'',
      annual ''2020-12-31'' ''0'' ''200'', annual ''2019-12-31'' ''0'' ''200'',
      annual ''2018-12-31'' ''0'' ''200'', annual ''2017-12-31'' ''0'' ''200'',
      annual ''2016-12-31'' ''0'' ''200'', annual ''2015-12-31'' ''0'' ''200'',
      annual ''2014-12-31'' ''0'' ''200'', annual ''2013-12-31'' ''0'' ''200'']"



subsection \<open>The data each rule requires\<close>












section \<open>Basic facts\<close>

lemma bindE_Inr_iff: "bindE m f = Inr y \<longleftrightarrow> (\<exists>x. m = Inr x \<and> f x = Inr y)"
  by (cases m) auto

lemma bindE_Inl_iff: "bindE m f = Inl e \<longleftrightarrow> m = Inl e \<or> (\<exists>x. m = Inr x \<and> f x = Inl e)"
  by (cases m) auto

section \<open>The quota-limited client\<close>

lemma make_request_exhausted:
  "max_daily_calls c \<le> daily_calls c \<Longrightarrow> make_request params reply latency c w = (None, c, w)"
  by (simp add: make_request_def)

lemma do_fetch_exhausted:
  "max_daily_calls c \<le> daily_calls c \<Longrightarrow> do_fetch f symbol reply latency c w = (None, c, w)"
  by (cases f)
     (simp_all add: get_overview_def get_income_statement_def get_balance_sheet_def
        get_cash_flow_def get_dividends_def get_data_def make_request_exhausted)

lemma do_fetch_make_request:
  "\<exists>params. do_fetch f symbol reply latency = make_request params reply latency"
  by (cases f)
     (auto simp add: get_overview_def get_income_statement_def get_balance_sheet_def
        get_cash_flow_def get_dividends_def get_data_def)

lemma make_request_quota_inv:
  "quota_inv m k (c, w) \<Longrightarrow> quota_inv m k (snd (make_request params reply latency c w))"
  by (auto simp add: quota_inv_def make_request_def rate_limit_def Let_def sleep_def)

lemma step_quota_inv: "quota_inv m k s \<Longrightarrow> quota_inv m k (step e s)"
proof (cases e)
  case (Idle d)
  assume "quota_inv m k s"
  then show ?thesis using Idle by (cases s) (simp add: quota_inv_def)
next
  case (Fetch f symbol reply latency)
  assume inv: "quota_inv m k s"
  obtain c w where s: "s = (c, w)" by (cases s)
  obtain params where "do_fetch f symbol reply latency = make_request params reply latency"
    using do_fetch_make_request by blast
  then show ?thesis using make_request_quota_inv [of m k c w params reply latency] inv s Fetch
    by simp
qed

lemma run_quota_inv: "quota_inv m k s \<Longrightarrow> quota_inv m k (run es s)"
  by (induction es arbitrary: s) (simp_all add: step_quota_inv)

text \<open>
  C1. In a client state whose daily call count has reached the ceiling, every fetch operation
  returns None and leaves the client and the world as they were: nothing is dispatched, nothing
  is slept, the last-call timestamp and the counter keep their values. Consequently a history
  of fetches dispatches at most the calls the ceiling still allowed, and from a fresh client at
  most \<open>MAX_DAILY_CALLS\<close> requests.
\<close>

theorem quota_ceiling_respected:
  "(max_daily_calls c \<le> daily_calls c \<longrightarrow>
      do_fetch f symbol reply latency c w = (None, c, w))
   \<and> (daily_calls c \<le> max_daily_calls c \<longrightarrow>
        int (length (sent (snd (run es (c, w))))) - int (length (sent w))
          \<le> max_daily_calls c - daily_calls c)
   \<and> int (length (sent (snd (run es (init_client key cpm, w\<lparr>sent := []\<rparr>))))) \<le> MAX_DAILY_CALLS"
proof (intro conjI impI)
  assume "max_daily_calls c \<le> daily_calls c"
  then show "do_fetch f symbol reply latency c w = (None, c, w)" by (rule do_fetch_exhausted)
next
  assume le: "daily_calls c \<le> max_daily_calls c"
  have "quota_inv (max_daily_calls c) (int (length (sent w)) - daily_calls c) (c, w)"
    using le by (simp add: quota_inv_def)
  from run_quota_inv [OF this, of es]
  show "int (length (sent (snd (run es (c, w))))) - int (length (sent w))
          \<le> max_daily_calls c - daily_calls c"
    by (simp add: quota_inv_def)
next
  have "quota_inv MAX_DAILY_CALLS 0 (init_client key cpm, w\<lparr>sent := []\<rparr>)"
    by (simp add: quota_inv_def init_client_def Let_def MAX_DAILY_CALLS_def)
  from run_quota_inv [OF this, of es]
  show "int (length (sent (snd (run es (init_client key cpm, w\<lparr>sent := []\<rparr>))))) \<le> MAX_DAILY_CALLS"
    by (simp add: quota_inv_def)
qed

lemmas client_defs =
  init_client_def get_overview_def get_income_statement_def get_balance_sheet_def
  get_cash_flow_def get_dividends_def get_data_def make_request_def rate_limit_def sleep_def
  CALLS_PER_MINUTE_def MAX_DAILY_CALLS_def response_data_def start_world_def Let_def

lemma two_calls_counts:
  "daily_calls (fst two_calls) = 2 \<and> max_daily_calls (fst two_calls) = 2
   \<and> length (sent (snd two_calls)) = 2 \<and> slept (snd two_calls) = 11"
  unfolding two_calls_def by (simp add: client_defs)

theorem quota_ceiling_respected_witness:
  "max_daily_calls (fst two_calls) \<le> daily_calls (fst two_calls)
   \<and> daily_calls (fst two_calls) = 2
   \<and> do_fetch Income_statement ''IBM'' (Http_response 200 (Some (JObj []))) 1 (fst two_calls) (snd two_calls)
       = (None, fst two_calls, snd two_calls)
   \<and> int (length (sent (snd (run three_events ((init_client ''key'' None)\<lparr>max_daily_calls := 2\<rparr>, start_world)))))
       \<le> 2"
proof -
  have h: "max_daily_calls (fst two_calls) \<le> daily_calls (fst two_calls)"
    by (simp add: two_calls_counts)
  have g: "daily_calls ((init_client ''key'' None)\<lparr>max_daily_calls := 2\<rparr>)
             \<le> max_daily_calls ((init_client ''key'' None)\<lparr>max_daily_calls := 2\<rparr>)"
    by (simp add: init_client_def Let_def)
  from quota_ceiling_respected
         [where c = "fst two_calls" and w = "snd two_calls" and f = Income_statement
            and symbol = "''IBM''" and reply = "Http_response 200 (Some (JObj []))" and latency = 1]
       quota_ceiling_respected
         [where c = "(init_client ''key'' None)\<lparr>max_daily_calls := 2\<rparr>" and w = start_world
            and es = three_events]
       h g
  show ?thesis by (simp add: two_calls_counts init_client_def start_world_def Let_def)
qed

lemma spaced_Cons: "spaced d (x # xs) = ((xs \<noteq> [] \<longrightarrow> fst (hd xs) + d \<le> fst x) \<and> spaced d xs)"
  by (cases xs) auto

lemma make_request_spacing_inv:
  assumes "spacing_inv d (c, w)" and "0 \<le> latency"
  shows "spacing_inv d (snd (make_request params reply latency c w))"
proof (cases "max_daily_calls c \<le> daily_calls c")
  case True
  then show ?thesis using assms by (simp add: make_request_def)
next
  case False
  then show ?thesis using assms
    by (auto simp add: make_request_def rate_limit_def sleep_def Let_def spacing_inv_def spaced_Cons)
qed

lemma step_spacing_inv:
  assumes "spacing_inv d s" and "event_ok e"
  shows "spacing_inv d (step e s)"
proof (cases e)
  case (Idle t)
  then show ?thesis using assms by (cases s) (auto simp add: spacing_inv_def)
next
  case (Fetch f symbol reply latency)
  obtain c w where s: "s = (c, w)" by (cases s)
  obtain params where "do_fetch f symbol reply latency = make_request params reply latency"
    using do_fetch_make_request by blast
  then show ?thesis
    using make_request_spacing_inv [of d c w latency params reply] assms s Fetch by simp
qed

lemma run_spacing_inv:
  "spacing_inv d s \<Longrightarrow> list_all event_ok es \<Longrightarrow> spacing_inv d (run es s)"
  by (induction es arbitrary: s) (simp_all add: step_spacing_inv)

lemma spaced_nth: "spaced d xs \<Longrightarrow> Suc i < length xs \<Longrightarrow> d \<le> fst (xs ! i) - fst (xs ! Suc i)"
proof (induction d xs arbitrary: i rule: spaced.induct)
  case (3 d x y r)
  then show ?case by (cases i) auto
qed simp_all

lemma init_client_min_delay:
  "min_delay (init_client key cpm) = 60 / of_int (calls_per_minute (init_client key cpm))"
  by (simp add: init_client_def Let_def)

lemma rate_limit_sleeps:
  "slept (snd (rate_limit c w)) - slept w =
     (if clock w - last_call_time c < min_delay c then min_delay c - (clock w - last_call_time c) else 0)"
  by (simp add: rate_limit_def sleep_def Let_def)

text \<open>
  C8. Over a clock that never runs backwards (every idle period and every exchange with the
  provider takes a time that is not negative, and sleeping advances the clock by the time
  asked for), any two consecutively dispatched requests of a client built by \<open>__init__\<close> are
  at least \<open>60 / calls_per_minute\<close> seconds apart; and \<open>_rate_limit\<close> sleeps exactly the
  remainder of the minimum delay when less than it has elapsed since the last call, and not at
  all otherwise.
\<close>

theorem dispatches_spaced:
  assumes "list_all event_ok es"
    and "sent w = []"
    and "Suc i < length (sent (snd (run es (init_client key cpm, w))))"
  shows "60 / of_int (calls_per_minute (init_client key cpm))
           \<le> fst (sent (snd (run es (init_client key cpm, w))) ! i)
             - fst (sent (snd (run es (init_client key cpm, w))) ! Suc i)
         \<and> slept (snd (rate_limit c w')) - slept w' =
             (if clock w' - last_call_time c < min_delay c
              then min_delay c - (clock w' - last_call_time c) else 0)"
proof -
  let ?c = "init_client key cpm"
  have "spacing_inv (min_delay ?c) (?c, w)"
    using assms(2) by (simp add: spacing_inv_def)
  then have "spacing_inv (min_delay ?c) (run es (?c, w))"
    using assms(1) by (rule run_spacing_inv)
  then have "spaced (min_delay ?c) (sent (snd (run es (?c, w))))"
    by (simp add: spacing_inv_def)
  from spaced_nth [OF this assms(3)] show ?thesis
    by (simp add: init_client_min_delay rate_limit_sleeps)
qed

lemma three_events_times:
  "map fst (sent (snd (run three_events (init_client ''key'' None, start_world)))) = [1042, 1012, 1000]
   \<and> slept (snd (run three_events (init_client ''key'' None, start_world))) = 9"
  unfolding three_events_def by (simp add: client_defs)

theorem dispatches_spaced_witness:
  "list_all event_ok three_events
   \<and> sent start_world = []
   \<and> Suc 1 < length (sent (snd (run three_events (init_client ''key'' None, start_world))))
   \<and> 60 / of_int (calls_per_minute (init_client ''key'' None)) = (12 :: rat)
   \<and> (12 :: rat) \<le> fst (sent (snd (run three_events (init_client ''key'' None, start_world))) ! 1)
             - fst (sent (snd (run three_events (init_client ''key'' None, start_world))) ! Suc 1)"
proof -
  have a: "list_all event_ok three_events" by (simp add: three_events_def)
  have b: "sent start_world = []" by (simp add: start_world_def)
  have "length (map fst (sent (snd (run three_events (init_client ''key'' None, start_world))))) = 3"
    by (simp only: three_events_times) simp
  then have c: "Suc 1 < length (sent (snd (run three_events (init_client ''key'' None, start_world))))"
    by simp
  have d: "60 / of_int (calls_per_minute (init_client ''key'' None)) = (12 :: rat)"
    by (simp add: init_client_def CALLS_PER_MINUTE_def Let_def)
  from dispatches_spaced [OF a b c] show ?thesis using a b c d by simp
qed

section \<open>The screening aggregator\<close>

lemma record_rules_passed:
  "rules_passed (record_rules rs r) = rules_passed r @ map fst (filter (\<lambda>x. fst (snd x)) rs)"
  by (induction rs r rule: record_rules.induct) (auto simp add: Let_def)

lemma record_rules_failed:
  "rules_failed (record_rules rs r) = rules_failed r @ map fst (filter (\<lambda>x. \<not> fst (snd x)) rs)"
  by (induction rs r rule: record_rules.induct) (auto simp add: Let_def)

lemma dict_set_fresh: "k \<notin> fst ` set kvs \<Longrightarrow> dict_set kvs k v = kvs @ [(k, v)]"
  by (induction kvs) auto

lemma record_rules_details:
  "distinct (map fst rs) \<Longrightarrow> fst ` set rs \<inter> fst ` set (rule_details r) = {} \<Longrightarrow>
   rule_details (record_rules rs r) = rule_details r @ map (\<lambda>x. (fst x, snd (snd x))) rs"
proof (induction rs r rule: record_rules.induct)
  case (1 results)
  then show ?case by simp
next
  case (2 rule_name passed detail rest results)
  have fresh: "rule_name \<notin> fst ` set (rule_details results)" using 2(3) by auto
  let ?r = "results\<lparr>rule_details := dict_set (rule_details results) rule_name detail\<rparr>"
  let ?r' = "if passed then ?r\<lparr>rules_passed := rules_passed ?r @ [rule_name]\<rparr>
             else ?r\<lparr>rules_failed := rules_failed ?r @ [rule_name]\<rparr>"
  have d: "rule_details ?r' = rule_details results @ [(rule_name, detail)]"
    using fresh by (simp add: dict_set_fresh)
  have disj: "fst ` set rest \<inter> fst ` set (rule_details ?r') = {}"
    using 2(2,3) unfolding d by (auto simp add: image_iff)
  have dist: "distinct (map fst rest)" using 2(2) by simp
  have "rule_details (record_rules rest ?r') = rule_details ?r' @ map (\<lambda>x. (fst x, snd (snd x))) rest"
    using 2(1) dist disj by (simp add: Let_def)
  then show ?case unfolding d by (simp add: Let_def)
qed

lemma rules_names:
  "map fst (rules ov inc bal dv) =
     [''Rule 1 (adequate size)'', ''Rule 2 (strong financial condition)'',
      ''Rule 3 (earnings stability)'', ''Rule 4 (dividend record)'',
      ''Rule 5 (earnings growth)'', ''Rule 6 (moderate P/E)'', ''Rule 7 (moderate P/B)'']"
  by (simp add: rules_def)

lemma rules_distinct: "distinct (map fst (rules ov inc bal dv))"
  unfolding rules_names by simp

lemma build_results_Inr:
  assumes "build_results tkr ov (rules ov inc bal dv) = Inr r"
  shows "total_passed r = length (filter (\<lambda>x. fst (snd x)) (rules ov inc bal dv))
       \<and> passes_all r = (total_passed r = 7)
       \<and> rule_details r = map (\<lambda>x. (fst x, snd (snd x))) (rules ov inc bal dv)
       \<and> rules_passed r = map fst (filter (\<lambda>x. fst (snd x)) (rules ov inc bal dv))
       \<and> rules_failed r = map fst (filter (\<lambda>x. \<not> fst (snd x)) (rules ov inc bal dv))"
proof -
  from assms obtain name price where
    r: "r = tally (record_rules (rules ov inc bal dv)
              \<lparr>ticker = tkr, company_name = name, current_price = price,
               rules_passed = [], rules_failed = [], rule_details = [],
               total_passed = 0, passes_all = False\<rparr>)"
    by (auto simp add: build_results_def bindE_Inr_iff)
  show ?thesis unfolding r
    by (simp add: tally_def Let_def record_rules_passed record_rules_failed
        record_rules_details [OF rules_distinct])
qed

text \<open>
  C3. When \<open>evaluate_stock\<close> returns a result, the overview was fetched and the result is built
  from the list of the seven evaluators applied, in the order Rule 1 to Rule 7, to the fetched
  datasets (a dataset that is unavailable or empty counting as \<open>{}\<close>): \<open>total_passed\<close> is the
  number of outcomes of that list whose \<open>passed\<close> is true, \<open>passes_all\<close> holds exactly when
  \<open>total_passed\<close> is 7, and the details and the names of the passed and of the failed rules are
  those of the list, in its order.
\<close>

theorem aggregation_counts_passed:
  assumes "evaluate_stock tkr net c w = (Some r, c', w')"
  shows "\<exists>ov inc bal dv c1 w1 c2 w2 c3 w3.
           get_overview tkr (fst (net Overview)) (snd (net Overview)) c w = (Some ov, c1, w1)
         \<and> get_income_statement tkr (fst (net Income_statement)) (snd (net Income_statement)) c1 w1 = (inc, c2, w2)
         \<and> get_balance_sheet tkr (fst (net Balance_sheet)) (snd (net Balance_sheet)) c2 w2 = (bal, c3, w3)
         \<and> get_dividends tkr (fst (net Dividends)) (snd (net Dividends)) c3 w3 = (dv, c', w')
         \<and> (let rs = rules ov (or_empty inc) (or_empty bal) (or_empty dv) in
              total_passed r = length (filter (\<lambda>x. fst (snd x)) rs)
            \<and> passes_all r = (total_passed r = 7)
            \<and> rule_details r = map (\<lambda>x. (fst x, snd (snd x))) rs
            \<and> rules_passed r = map fst (filter (\<lambda>x. fst (snd x)) rs)
            \<and> rules_failed r = map fst (filter (\<lambda>x. \<not> fst (snd x)) rs)
            \<and> map snd rs =
                [check_rule_1_size ov,
                 check_rule_2_financial_condition (or_empty bal) (or_empty inc) ov,
                 check_rule_3_earnings_stability (or_empty inc),
                 check_rule_4_dividend_record ov (or_empty dv),
                 check_rule_5_earnings_growth (or_empty inc) (or_empty bal),
                 check_rule_6_pe_ratio ov (or_empty inc) (or_empty bal),
                 check_rule_7_price_to_book ov])"
proof -
  obtain o1 c1 w1 where f1: "get_overview tkr (fst (net Overview)) (snd (net Overview)) c w = (o1, c1, w1)"
    by (metis prod_cases3)
  obtain inc c2 w2 where f2: "get_income_statement tkr (fst (net Income_statement)) (snd (net Income_statement)) c1 w1 = (inc, c2, w2)"
    by (metis prod_cases3)
  obtain bal c3 w3 where f3: "get_balance_sheet tkr (fst (net Balance_sheet)) (snd (net Balance_sheet)) c2 w2 = (bal, c3, w3)"
    by (metis prod_cases3)
  obtain dv c4 w4 where f4: "get_dividends tkr (fst (net Dividends)) (snd (net Dividends)) c3 w3 = (dv, c4, w4)"
    by (metis prod_cases3)
  from assms obtain ov where ov: "o1 = Some ov"
    and b: "build_results tkr ov (rules ov (or_empty inc) (or_empty bal) (or_empty dv)) = Inr r"
    and cw: "c' = c4" "w' = w4"
    by (auto simp add: evaluate_stock_def f1 f2 f3 f4 Let_def split: option.splits if_splits sum.splits)
  from build_results_Inr [OF b] show ?thesis
    using f1 f2 f3 f4 ov cw by (simp add: Let_def) (simp add: rules_def)
qed

lemma sample_eval:
  "map_option total_passed
     (fst (evaluate_stock ''IBM'' overview_only (init_client ''key'' None) start_world)) = Some 2"
  by code_simp

theorem aggregation_counts_passed_witness:
  "\<exists>r c' w'. evaluate_stock ''IBM'' overview_only (init_client ''key'' None) start_world = (Some r, c', w')
     \<and> total_passed r = 2 \<and> total_passed r = length (rules_passed r) \<and> \<not> passes_all r"
proof -
  obtain r c' w' where
    e: "evaluate_stock ''IBM'' overview_only (init_client ''key'' None) start_world = (Some r, c', w')"
      and two: "total_passed r = 2"
    using sample_eval
    by (cases "evaluate_stock ''IBM'' overview_only (init_client ''key'' None) start_world") auto
  from aggregation_counts_passed [OF e]
  have "passes_all r = (total_passed r = 7)" and "total_passed r = length (rules_passed r)"
    by (auto simp add: Let_def)
  then show ?thesis using e two by auto
qed

section \<open>Reading datasets\<close>

lemma field_of_Some: "field_of r f = Some x \<longleftrightarrow> get_field r f = Inr x"
  by (simp add: field_of_def split: sum.splits)


lemma py_contains_JObj: "py_contains k (JObj kvs) = Inr (map_of kvs k \<noteq> None)"
  by (simp add: map_of_eq_None_iff)










lemma reports_of_Some:
  "reports_of s = Some xs \<longleftrightarrow> (\<exists>kvs. s = JObj kvs \<and> map_of kvs ''annualReports'' = Some (JArr xs))"
  by (auto simp add: reports_of_def split: json.splits option.splits)





section \<open>Rule 3: earnings stability\<close>








section \<open>Rule 2: financial condition\<close>































section \<open>Rule 4: dividend record\<close>






















section \<open>Rules 5 and 6: earnings per share\<close>

lemma eps_of_eps_at: "eps_of (i, b) = eps_at i b"
  by (auto simp add: eps_of_def eps_at_def field_of_def py_div_def split: sum.splits)

lemma fewer_reports_reports:
  "reports_of s = Some xs \<Longrightarrow> fewer_reports n s = Inr (length xs < n)"
  by (auto simp add: reports_of_Some fewer_reports_def py_contains_JObj simp del: py_contains.simps)

lemma years_available_reports:
  "reports_of s = Some xs \<Longrightarrow> years_available s = Inr (length xs)"
  by (auto simp add: reports_of_Some years_available_def)

lemma zipped_reports_reports:
  "reports_of inc = Some irs \<Longrightarrow> reports_of bal = Some brs \<Longrightarrow>
     zipped_reports n inc bal = Inr (zip (take n irs) (take n brs))"
  by (auto simp add: reports_of_Some zipped_reports_def)

lemma map_eps_of_zip:
  assumes "n \<le> length irs" and "n \<le> length brs"
  shows "map eps_of (zip (take n irs) (take n brs)) = map (\<lambda>i. eps_at (irs ! i) (brs ! i)) [0 ..< n]"
  using assms by (auto simp add: list_eq_iff_nth_eq eps_of_eps_at)

lemma rule_5_body_reports:
  assumes "reports_of inc = Some irs" and "reports_of bal = Some brs"
    and "10 \<le> length irs" and "10 \<le> length brs"
  shows "rule_5_body inc bal = rule_5_from_eps (map (\<lambda>i. eps_at (irs ! i) (brs ! i)) [0 ..< 10])"
  using assms(3,4)
  by (simp add: rule_5_body_def fewer_reports_reports [OF assms(1)] fewer_reports_reports [OF assms(2)]
      zipped_reports_reports [OF assms(1,2)] map_eps_of_zip)

lemma map_filter_cong_map:
  "map f xs = map g ys \<Longrightarrow> List.map_filter f xs = List.map_filter g ys"
proof (induction xs arbitrary: ys)
  case Nil
  then show ?case by (simp add: List.map_filter_simps)
next
  case (Cons x xs)
  then obtain y ys' where ys: "ys = y # ys'" by (cases ys) auto
  with Cons.prems have "f x = g y" "map f xs = map g ys'" by simp_all
  with Cons.IH [of ys'] show ?case by (simp add: ys List.map_filter_simps split: option.splits)
qed

lemma rule_6_body_reports:
  assumes "field_of ov ''50DayMovingAverage'' = Some price"
    and "reports_of inc = Some irs" and "reports_of bal = Some brs"
    and "3 \<le> length irs" and "3 \<le> length brs"
  shows "rule_6_body ov inc bal =
           rule_6_from_eps price (List.map_filter (\<lambda>i. eps_at (irs ! i) (brs ! i)) [0 ..< 3])"
proof -
  have "List.map_filter eps_of (zip (take 3 irs) (take 3 brs))
          = List.map_filter (\<lambda>i. eps_at (irs ! i) (brs ! i)) [0 ..< 3]"
    using map_eps_of_zip [OF assms(4,5)] by (rule map_filter_cong_map)
  then show ?thesis
    using assms(1,4,5)
    by (simp add: rule_6_body_def field_of_Some fewer_reports_reports [OF assms(2)]
        fewer_reports_reports [OF assms(3)] zipped_reports_reports [OF assms(2,3)])
qed


lemma upt_3: "[0 ..< 3] = [0, 1, 2]"
  by code_simp














text \<open>
  C10. In Rules 5 and 6 the earnings per share of year \<open>i\<close> pair the \<open>i\<close>-th income report
  with the \<open>i\<close>-th balance-sheet report by list position: the reports are zipped, and each
  pair yields the net income of the income report divided by the common shares outstanding of
  the balance-sheet report (nothing when either is unusable or the share count is zero). The
  outcome of Rule 5 is a function of these ten values, that of Rule 6 of the first three and
  the price; so two pairs of series that agree, position by position, on these two fields get
  the same outcome whatever their fiscal dates and other fields are, and series that cover
  different years are combined without notice.
\<close>

theorem eps_paired_by_position:
  assumes "reports_of inc = Some irs" and "reports_of bal = Some brs"
  shows "zipped_reports n inc bal = Inr (zip (take n irs) (take n brs))
       \<and> eps_of (ir, br) = eps_at ir br
       \<and> (10 \<le> length irs \<and> 10 \<le> length brs \<longrightarrow>
            check_rule_5_earnings_growth inc bal
              = guarded (rule_5_from_eps (map (\<lambda>i. eps_at (irs ! i) (brs ! i)) [0 ..< 10])))
       \<and> (3 \<le> length irs \<and> 3 \<le> length brs \<and> field_of ov ''50DayMovingAverage'' = Some price \<longrightarrow>
            check_rule_6_pe_ratio ov inc bal
              = guarded (rule_6_from_eps price
                  (List.map_filter (\<lambda>i. eps_at (irs ! i) (brs ! i)) [0 ..< 3])))
       \<and> (10 \<le> length irs \<and> 10 \<le> length brs
            \<and> reports_of inc' = Some irs' \<and> reports_of bal' = Some brs'
            \<and> 10 \<le> length irs' \<and> 10 \<le> length brs'
            \<and> (\<forall>i < 10. field_of (irs' ! i) ''netIncome'' = field_of (irs ! i) ''netIncome''
                  \<and> field_of (brs' ! i) ''commonStockSharesOutstanding''
                      = field_of (brs ! i) ''commonStockSharesOutstanding'') \<longrightarrow>
            check_rule_5_earnings_growth inc' bal' = check_rule_5_earnings_growth inc bal)"
proof (intro conjI impI)
  show "zipped_reports n inc bal = Inr (zip (take n irs) (take n brs))"
    using assms by (rule zipped_reports_reports)
  show "eps_of (ir, br) = eps_at ir br" by (rule eps_of_eps_at)
next
  assume "10 \<le> length irs \<and> 10 \<le> length brs"
  then show "check_rule_5_earnings_growth inc bal
              = guarded (rule_5_from_eps (map (\<lambda>i. eps_at (irs ! i) (brs ! i)) [0 ..< 10]))"
    using assms by (simp add: check_rule_5_earnings_growth_def rule_5_body_reports)
next
  assume "3 \<le> length irs \<and> 3 \<le> length brs \<and> field_of ov ''50DayMovingAverage'' = Some price"
  then show "check_rule_6_pe_ratio ov inc bal
              = guarded (rule_6_from_eps price
                  (List.map_filter (\<lambda>i. eps_at (irs ! i) (brs ! i)) [0 ..< 3]))"
    using assms by (simp add: check_rule_6_pe_ratio_def rule_6_body_reports)
next
  assume a: "10 \<le> length irs \<and> 10 \<le> length brs
            \<and> reports_of inc' = Some irs' \<and> reports_of bal' = Some brs'
            \<and> 10 \<le> length irs' \<and> 10 \<le> length brs'
            \<and> (\<forall>i < 10. field_of (irs' ! i) ''netIncome'' = field_of (irs ! i) ''netIncome''
                  \<and> field_of (brs' ! i) ''commonStockSharesOutstanding''
                      = field_of (brs ! i) ''commonStockSharesOutstanding'')"
  then have m: "map (\<lambda>i. eps_at (irs' ! i) (brs' ! i)) [0 ..< 10]
               = map (\<lambda>i. eps_at (irs ! i) (brs ! i)) [0 ..< 10]"
    by (intro map_cong) (auto simp add: eps_at_def split: option.splits)
  have "rule_5_body inc' bal' = rule_5_body inc bal"
    using a assms by (simp only: rule_5_body_reports m)
  then show "check_rule_5_earnings_growth inc' bal' = check_rule_5_earnings_growth inc bal"
    by (simp add: check_rule_5_earnings_growth_def)
qed

lemma shifted_facts:
  "reports_of (statement nine_of_ten) = Some nine_of_ten
   \<and> reports_of (statement shifted_balance) = Some shifted_balance
   \<and> 10 \<le> length nine_of_ten \<and> 10 \<le> length shifted_balance
   \<and> nine_of_ten ! 0 = annual ''2023-12-31'' ''140'' ''100''
   \<and> shifted_balance ! 0 = annual ''2022-12-31'' ''0'' ''200''
   \<and> eps_at (nine_of_ten ! 0) (shifted_balance ! 0) = Some (140 / 200)"
  by code_simp

theorem eps_paired_by_position_witness:
  "reports_of (statement nine_of_ten) = Some nine_of_ten
   \<and> reports_of (statement shifted_balance) = Some shifted_balance
   \<and> 10 \<le> length nine_of_ten \<and> 10 \<le> length shifted_balance
   \<and> nine_of_ten ! 0 = annual ''2023-12-31'' ''140'' ''100''
   \<and> shifted_balance ! 0 = annual ''2022-12-31'' ''0'' ''200''
   \<and> eps_at (nine_of_ten ! 0) (shifted_balance ! 0) = Some (140 / 200)
   \<and> check_rule_5_earnings_growth (statement nine_of_ten) (statement shifted_balance)
       = guarded (rule_5_from_eps
           (map (\<lambda>i. eps_at (nine_of_ten ! i) (shifted_balance ! i)) [0 ..< 10]))"
proof -
  have a: "reports_of (statement nine_of_ten) = Some nine_of_ten"
    and b: "reports_of (statement shifted_balance) = Some shifted_balance"
    using shifted_facts by simp_all
  have "check_rule_5_earnings_growth (statement nine_of_ten) (statement shifted_balance)
       = guarded (rule_5_from_eps
           (map (\<lambda>i. eps_at (nine_of_ten ! i) (shifted_balance ! i)) [0 ..< 10]))"
    using eps_paired_by_position [OF a b, THEN conjunct2, THEN conjunct2, THEN conjunct1]
      shifted_facts by blast
  then show ?thesis using shifted_facts by blast
qed






section \<open>What a passing rule implies\<close>














section \<open>The evaluators fail closed\<close>


















end
